theory Spec2Isabelle
  imports Complex_Main "HOL-Library.Word"
begin

section \<open>Numeric arrays\<close>

text \<open>
  The scripts work on numpy arrays read from a PLY \<open>vertex\<close> element. A PLY scalar
  property has one of eight element types; numpy keeps the element type (the \<open>dtype\<close>) with
  the values. An array is modelled as its dtype together with its values: a floating-point
  array holds reals, an integer array holds integers.

  Idealisation: 64-bit floating-point arithmetic is modelled as exact arithmetic on
  \<^typ>\<open>real\<close> (no rounding, no infinities, no NaN). The one place where the source
  deliberately lowers the precision, the cast to 32-bit floats, is modelled as rounding
  (\<open>to_float32\<close> below).
\<close>

datatype float_kind = F4 | F8

datatype int_kind = I1 | U1 | I2 | U2 | I4 | U4

datatype ndarray = FloatArray float_kind "real list" | IntArray int_kind "int list"



fun len :: "ndarray \<Rightarrow> nat" where
  "len (FloatArray _ vs) = length vs"
| "len (IntArray _ vs) = length vs"

text \<open>\<open>arr.astype(np.float64)\<close>: every PLY integer type (at most 32 bits) and the 32-bit
  floats convert to a 64-bit float without loss; the result is the list of values.\<close>

fun astype_float64 :: "ndarray \<Rightarrow> real list" where
  "astype_float64 (FloatArray _ vs) = vs"
| "astype_float64 (IntArray _ vs) = map of_int vs"

text \<open>\<open>np.mean(arr)\<close> of a one-dimensional array.\<close>

definition np_mean :: "real list \<Rightarrow> real" where
  "np_mean arr = sum_list arr / of_nat (length arr)"

subsection \<open>The cast to 32-bit floats\<close>

text \<open>
  \<open>arr.astype(np.float32)\<close> rounds every value to the nearest IEEE 754 binary32 number,
  ties to the even significand. A binary32 number is an integer multiple of \<open>2^(e - 23)\<close>,
  where \<open>e\<close> is the exponent of the value and at least \<open>-126\<close> (below, the numbers are
  subnormal and their spacing stays \<open>2^(-149)\<close>). Values whose magnitude is beyond the
  largest binary32 number become infinite in numpy; the model has no infinity, and the
  statements about rounding are made below that bound (\<open>float32_max\<close>).
\<close>

definition round_half_even :: "real \<Rightarrow> int" where
  "round_half_even r =
     (let f = \<lfloor>r\<rfloor>; d = r - of_int f
      in if d < 1 / 2 then f
         else if 1 / 2 < d then f + 1
         else if even f then f else f + 1)"

definition float32_exponent :: "real \<Rightarrow> int" where
  "float32_exponent v = max (- 126) \<lfloor>log 2 \<bar>v\<bar>\<rfloor>"

definition float32_ulp :: "real \<Rightarrow> real" where
  "float32_ulp v = 2 powr (of_int (float32_exponent v) - 23)"

definition to_float32 :: "real \<Rightarrow> real" where
  "to_float32 v =
     (if v = 0 then 0
      else of_int (round_half_even (v / float32_ulp v)) * float32_ulp v)"


section \<open>The vertex element of a PLY file\<close>

text \<open>
  \<open>PlyData.read(path)["vertex"]\<close> is a table: its properties in file order, each with a
  name and a column. \<open>vertex[name]\<close> is the column of the property with that name;
  property names are unique (they are the field names of a numpy structured array).
\<close>

type_synonym ply_element = "(string \<times> ndarray) list"

definition prop_names :: "ply_element \<Rightarrow> string list" where
  "prop_names vertex = map fst vertex"

definition getitem :: "ply_element \<Rightarrow> string \<Rightarrow> ndarray option" where
  "getitem vertex name = map_of vertex name"

text \<open>A raised exception is the left value of a sum. It ends the function: what
  follows in the source runs only on a result.\<close>

definition and_then :: "'e + 'a \<Rightarrow> ('a \<Rightarrow> 'e + 'b) \<Rightarrow> 'e + 'b" where
  "and_then m f = (case m of Inl e \<Rightarrow> Inl e | Inr v \<Rightarrow> f v)"

section \<open>\<open>ply_to_local.py\<close>: the global shift\<close>

text \<open>
  Every failure of \<open>convert_ply_to_local\<close> is a Python \<open>ValueError\<close>; the constructors
  keep apart what its message says:
  \<^item> \<open>MissingField missing\<close>: "PLY is missing required coordinate fields: {missing}";
  \<^item> \<open>EmptyInput\<close>: "Input PLY contains no points.";
  \<^item> \<open>InvalidParameter AutoBaseNotPositive\<close>: "--auto-base must be positive";
  \<^item> \<open>InvalidParameter ManualShiftArity\<close>: "manual_shift must contain 3 values, ...";
  \<^item> \<open>InvalidParameter UnsupportedMode\<close>: "shift_mode must be 'auto', 'manual', or
    'first_point'".
  \<open>IndexError\<close> is what \<open>points_global[0]\<close> raises on an array without rows.
\<close>

datatype invalid_parameter = AutoBaseNotPositive | ManualShiftArity | UnsupportedMode

datatype error =
  MissingField "string set" | EmptyInput | InvalidParameter invalid_parameter | IndexError

type_synonym vec3 = "real \<times> real \<times> real"

definition required :: "string set" where
  "required = {''x'', ''y'', ''z''}"

text \<open>\<open>np.vstack((x, y, z)).T\<close>: the rows \<open>(x[i], y[i], z[i])\<close>. The three columns of one
  vertex element have the same length.\<close>

definition vstack_T :: "real list \<Rightarrow> real list \<Rightarrow> real list \<Rightarrow> vec3 list" where
  "vstack_T x y z = zip x (zip y z)"

text \<open>Lines 57 to 70: the checks of the input and the coordinate columns \<open>x\<close>, \<open>y\<close>,
  \<open>z\<close> with the array \<open>points_global\<close> of their rows.\<close>

definition read_coordinates ::
  "ply_element \<Rightarrow> error + real list \<times> real list \<times> real list \<times> vec3 list" where
  "read_coordinates vertex =
     (if \<not> required \<subseteq> set (prop_names vertex) then
        Inl (MissingField (required - set (prop_names vertex)))
      else
        case (getitem vertex ''x'', getitem vertex ''y'', getitem vertex ''z'') of
          (Some vx, Some vy, Some vz) \<Rightarrow>
            (let x = astype_float64 vx; y = astype_float64 vy; z = astype_float64 vz;
                 points_global = vstack_T x y z
             in if length points_global = 0 then Inl EmptyInput
                else Inr (x, y, z, points_global))
        | _ \<Rightarrow> Inl (MissingField (required - set (prop_names vertex))))"

text \<open>The nested helper of the \<open>auto\<close> branch.\<close>

definition floor_base :: "real list \<Rightarrow> real \<Rightarrow> error + real" where
  "floor_base arr base =
     (if base \<le> 0 then Inl (InvalidParameter AutoBaseNotPositive)
      else Inr (of_int \<lfloor>np_mean arr / base\<rfloor> * base))"

text \<open>Lines 78 to 101: the shift of the selected mode. \<open>manual_shift\<close> is \<open>None\<close> or a
  tuple of any length.\<close>

definition compute_shift ::
  "string \<Rightarrow> real list option \<Rightarrow> real \<Rightarrow> real list \<Rightarrow> real list \<Rightarrow> real list \<Rightarrow> vec3 list
    \<Rightarrow> error + vec3" where
  "compute_shift shift_mode manual_shift auto_base x y z points_global =
     (if shift_mode = ''auto'' then
        and_then (floor_base x auto_base) (\<lambda>shift_x.
        and_then (floor_base y auto_base) (\<lambda>shift_y.
        and_then (floor_base z auto_base) (\<lambda>shift_z.
          Inr (shift_x, shift_y, shift_z))))
      else if shift_mode = ''manual'' then
        (case manual_shift of
           Some [sx, sy, sz] \<Rightarrow> Inr (sx, sy, sz)
         | _ \<Rightarrow> Inl (InvalidParameter ManualShiftArity))
      else if shift_mode = ''first_point'' then
        (case points_global of
           p0 # _ \<Rightarrow> Inr p0
         | [] \<Rightarrow> Inl IndexError)
      else Inl (InvalidParameter UnsupportedMode))"

text \<open>Line 104: \<open>points_global - shift\<close>, the shift broadcast over the rows.\<close>

definition sub_shift :: "vec3 list \<Rightarrow> vec3 \<Rightarrow> vec3 list" where
  "sub_shift points_global shift =
     map (\<lambda>(px, py, pz). case shift of (sx, sy, sz) \<Rightarrow> (px - sx, py - sy, pz - sz)) points_global"

text \<open>Lines 106 to 119: the output table. The coordinate properties become 32-bit float
  columns holding the local coordinates; every other property keeps its column.\<close>

definition build_vertex_array :: "ply_element \<Rightarrow> vec3 list \<Rightarrow> ply_element" where
  "build_vertex_array vertex points_local =
     map (\<lambda>(name, col).
            (name,
             if name = ''x'' then FloatArray F4 (map (\<lambda>p. to_float32 (fst p)) points_local)
             else if name = ''y'' then FloatArray F4 (map (\<lambda>p. to_float32 (fst (snd p))) points_local)
             else if name = ''z'' then FloatArray F4 (map (\<lambda>p. to_float32 (snd (snd p))) points_local)
             else col))
         vertex"

subsection \<open>The files written\<close>

text \<open>
  \<open>os.path.splitext(p)[0]\<close>: the path without its extension. The extension starts at the
  last dot, when that dot comes after the last \<open>/\<close> and is not one of the dots the file
  name starts with.
\<close>

definition rfind :: "char \<Rightarrow> string \<Rightarrow> int" where
  "rfind c p = (case filter (\<lambda>i. p ! i = c) (rev [0..<length p]) of
                  [] \<Rightarrow> - 1
                | i # _ \<Rightarrow> int i)"

definition splitext_root :: "string \<Rightarrow> string" where
  "splitext_root p =
     (let sepIndex = rfind CHR ''/'' p; dotIndex = rfind CHR ''.'' p
      in if sepIndex < dotIndex \<and>
            list_ex (\<lambda>k. p ! k \<noteq> CHR ''.'') [nat (sepIndex + 1)..<nat dotIndex]
         then take (nat dotIndex) p
         else p)"

text \<open>The side-car record. Of the dictionary the source dumps, the model keeps the
  entries computed from the arguments: the shift, the mode, the manual shift (only in
  \<open>manual\<close> mode) and the base. The two absolute paths and the constant note are left out.\<close>

record origin_dict =
  shift_global :: vec3
  shift_mode_used :: string
  manual_shift_used :: "real list option"
  auto_base_used :: real

datatype file_content = PlyBinary ply_element | OriginJson origin_dict

type_synonym filesystem = "string \<rightharpoonup> file_content"

subsection \<open>The conversion\<close>

text \<open>
  Lines 57 to 104 of \<open>convert_ply_to_local\<close>: from the vertex element that
  \<open>PlyData.read\<close> returned to the local points and the shift, both in 64-bit precision,
  or the error raised. The specification calls this part the shift selector.
\<close>

definition select_shift ::
  "ply_element \<Rightarrow> string \<Rightarrow> real list option \<Rightarrow> real \<Rightarrow> error + vec3 list \<times> vec3" where
  "select_shift vertex shift_mode manual_shift auto_base =
     and_then (read_coordinates vertex) (\<lambda>(x, y, z, points_global).
     and_then (compute_shift shift_mode manual_shift auto_base x y z points_global) (\<lambda>shift.
       Inr (sub_shift points_global shift, shift)))"

text \<open>
  The whole function: the rest of it (lines 106 to 144) stores the local points in the
  output table, writes the table to \<open>output_ply\<close> and, when asked, the side-car record
  next to it, and returns the shift. The file system is passed through: the result is
  the returned shift or the error raised, and the file system afterwards. Failures of
  reading and writing themselves (a missing input file, a full disk), the creation of the
  output directory and the console output are outside the model.
\<close>

definition convert_ply_to_local ::
  "ply_element \<Rightarrow> string \<Rightarrow> string \<Rightarrow> real list option \<Rightarrow> bool \<Rightarrow> real \<Rightarrow> filesystem
    \<Rightarrow> (error + vec3) \<times> filesystem" where
  "convert_ply_to_local vertex output_ply shift_mode manual_shift save_origin_json auto_base fs =
     (case select_shift vertex shift_mode manual_shift auto_base of
        Inl e \<Rightarrow> (Inl e, fs)
      | Inr (points_local, shift) \<Rightarrow>
         (let vertex_array = build_vertex_array vertex points_local;
              fs1 = fs(output_ply \<mapsto> PlyBinary vertex_array);
              fs2 = (if save_origin_json then
                       fs1(splitext_root output_ply @ ''_origin.json'' \<mapsto>
                         OriginJson \<lparr>shift_global = shift,
                           shift_mode_used = shift_mode,
                           manual_shift_used =
                             (if shift_mode = ''manual'' then manual_shift else None),
                           auto_base_used = auto_base\<rparr>)
                     else fs1)
          in (Inr shift, fs2)))"

section \<open>\<open>local_ply_2_ecef_las.py\<close>: local ENU coordinates to ECEF\<close>

text \<open>
  \<open>local_ply_to_ecef_las\<close> has no \<open>raise\<close> of its own. It fails where a library call
  does: \<open>vertex[name]\<close> for a property the element does not have (\<open>NoField name\<close>), and
  \<open>min\<close> or \<open>max\<close> of an array without elements (\<open>ZeroSizeReduction\<close>); both are a
  \<open>ValueError\<close> in Python.
\<close>

datatype ecef_error = NoField string | ZeroSizeReduction

definition getitem_or_raise :: "ply_element \<Rightarrow> string \<Rightarrow> ecef_error + ndarray" where
  "getitem_or_raise vertex name =
     (case getitem vertex name of None \<Rightarrow> Inl (NoField name) | Some col \<Rightarrow> Inr col)"

fun np_min :: "real list \<Rightarrow> ecef_error + real" where
  "np_min [] = Inl ZeroSizeReduction"
| "np_min (v # vs) = Inr (fold min vs v)"

fun np_max :: "real list \<Rightarrow> ecef_error + real" where
  "np_max [] = Inl ZeroSizeReduction"
| "np_max (v # vs) = Inr (fold max vs v)"

subsection \<open>The origin and the rotation\<close>

definition wgs84_a :: real where
  "wgs84_a = 6378137"

definition wgs84_e2 :: real where
  "wgs84_e2 = 669437999014 / 10 ^ 14"

definition radians :: "real \<Rightarrow> real" where
  "radians deg = deg * pi / 180"

text \<open>Lines 39 to 50: the ECEF position of the origin.\<close>

definition origin_ecef :: "real \<Rightarrow> real \<Rightarrow> real \<Rightarrow> vec3" where
  "origin_ecef origin_lon origin_lat origin_height =
     (let lat0 = radians origin_lat; lon0 = radians origin_lon;
          sin_lat = sin lat0; cos_lat = cos lat0; sin_lon = sin lon0; cos_lon = cos lon0;
          N0 = wgs84_a / sqrt (1 - wgs84_e2 * sin_lat ^ 2);
          x0 = (N0 + origin_height) * cos_lat * cos_lon;
          y0 = (N0 + origin_height) * cos_lat * sin_lon;
          z0 = (N0 * (1 - wgs84_e2) + origin_height) * sin_lat
      in (x0, y0, z0))"

text \<open>Lines 57 to 61: the matrix \<open>R\<close>, as its three rows.\<close>

definition rotation :: "real \<Rightarrow> real \<Rightarrow> vec3 \<times> vec3 \<times> vec3" where
  "rotation origin_lon origin_lat =
     (let lat0 = radians origin_lat; lon0 = radians origin_lon;
          sin_lat = sin lat0; cos_lat = cos lat0; sin_lon = sin lon0; cos_lon = cos lon0
      in ((- sin_lon, cos_lon, 0),
          (- sin_lat * cos_lon, - sin_lat * sin_lon, cos_lat),
          (cos_lat * cos_lon, cos_lat * sin_lon, sin_lat)))"

text \<open>
  Lines 63 to 64: \<open>local_points\<close> is the \<open>3 \<times> N\<close> array with the rows \<open>east\<close>, \<open>north\<close>,
  \<open>up\<close>. One row of \<open>R @ local_points\<close> is the combination of these three rows with the
  entries of one row of \<open>R\<close>; adding \<open>origin_ecef.reshape(3, 1)\<close> adds one component
  of the origin to every entry of a row.
\<close>

definition matmul_row :: "vec3 \<Rightarrow> real list \<Rightarrow> real list \<Rightarrow> real list \<Rightarrow> real list" where
  "matmul_row r east north up =
     (case r of (a, b, c) \<Rightarrow> map (\<lambda>(e, n, u). a * e + b * n + c * u) (zip east (zip north up)))"

definition ecef_rows ::
  "real \<Rightarrow> real \<Rightarrow> real \<Rightarrow> real list \<Rightarrow> real list \<Rightarrow> real list
    \<Rightarrow> real list \<times> real list \<times> real list" where
  "ecef_rows origin_lon origin_lat origin_height east north up =
     (case origin_ecef origin_lon origin_lat origin_height of (x0, y0, z0) \<Rightarrow>
      case rotation origin_lon origin_lat of (r1, r2, r3) \<Rightarrow>
        (map (\<lambda>v. x0 + v) (matmul_row r1 east north up),
         map (\<lambda>v. y0 + v) (matmul_row r2 east north up),
         map (\<lambda>v. z0 + v) (matmul_row r3 east north up)))"

subsection \<open>The colour channels\<close>

type_synonym uint8 = "8 word"

text \<open>\<open>np.clip(arr, lo, hi)\<close> on one element.\<close>

definition np_clip :: "'a::linorder \<Rightarrow> 'a \<Rightarrow> 'a \<Rightarrow> 'a" where
  "np_clip v lo hi = min hi (max v lo)"

text \<open>\<open>.astype(np.uint8)\<close>: a float loses its fraction (rounding towards zero), and the
  integer is stored in eight bits.\<close>

definition trunc_toward_zero :: "real \<Rightarrow> int" where
  "trunc_toward_zero v = (if v < 0 then \<lceil>v\<rceil> else \<lfloor>v\<rfloor>)"

definition float_to_uint8 :: "real \<Rightarrow> uint8" where
  "float_to_uint8 v = word_of_int (trunc_toward_zero v)"

definition int_to_uint8 :: "int \<Rightarrow> uint8" where
  "int_to_uint8 v = word_of_int v"

text \<open>Lines 89 to 92: one channel. 32-bit float channels are multiplied exactly, like the
  64-bit ones.\<close>

fun normalize_channel :: "ndarray \<Rightarrow> ecef_error + uint8 list" where
  "normalize_channel (FloatArray k val) =
     (case np_max val of
        Inl e \<Rightarrow> Inl e
      | Inr m \<Rightarrow>
         Inr (map float_to_uint8
                (map (\<lambda>v. np_clip v 0 255)
                   (if m \<le> 101 / 100 then map (\<lambda>v. v * 255) val else val))))"
| "normalize_channel (IntArray k val) =
     Inr (map int_to_uint8 (map (\<lambda>v. np_clip v 0 255) val))"

text \<open>Lines 87 to 93 for one colour name: nothing is set when the element has no such
  property.\<close>

definition rgb_channel :: "ply_element \<Rightarrow> string \<Rightarrow> ecef_error + uint8 list option" where
  "rgb_channel vertex color =
     (case getitem vertex color of
        None \<Rightarrow> Inr None
      | Some val \<Rightarrow>
         (case normalize_channel val of Inl e \<Rightarrow> Inl e | Inr v \<Rightarrow> Inr (Some v)))"

subsection \<open>The conversion\<close>

text \<open>The \<open>LasData\<close> object handed to \<open>las.write\<close>: the header entries and the point
  fields that the function sets. How laspy encodes them in the file is outside the model.\<close>

record las_data =
  point_format :: nat
  version :: string
  system_identifier :: string
  las_x :: "real list"
  las_y :: "real list"
  las_z :: "real list"
  las_red :: "uint8 list option"
  las_green :: "uint8 list option"
  las_blue :: "uint8 list option"

definition local_ply_to_ecef_las ::
  "ply_element \<Rightarrow> real \<Rightarrow> real \<Rightarrow> real \<Rightarrow> bool \<Rightarrow> ecef_error + las_data" where
  "local_ply_to_ecef_las vertex origin_lon origin_lat origin_height preserve_rgb =
     and_then (getitem_or_raise vertex ''x'') (\<lambda>vx.
     and_then (getitem_or_raise vertex ''y'') (\<lambda>vy.
     and_then (getitem_or_raise vertex ''z'') (\<lambda>vz.
       let east = astype_float64 vx; north = astype_float64 vy; up = astype_float64 vz;
           (x_ecef, y_ecef, z_ecef) =
             ecef_rows origin_lon origin_lat origin_height east north up
       in and_then (np_min x_ecef) (\<lambda>_.
          and_then (np_max x_ecef) (\<lambda>_.
            let las = \<lparr>point_format = 3, version = ''1.4'',
                       system_identifier = ''ECEF (Earth-Centered, Earth-Fixed)'',
                       las_x = x_ecef, las_y = y_ecef, las_z = z_ecef,
                       las_red = None, las_green = None, las_blue = None\<rparr>
            in if preserve_rgb then
                 and_then (rgb_channel vertex ''red'') (\<lambda>r.
                 and_then (rgb_channel vertex ''green'') (\<lambda>g.
                 and_then (rgb_channel vertex ''blue'') (\<lambda>b.
                   Inr (las\<lparr>las_red := r, las_green := g, las_blue := b\<rparr>))))
               else Inr las)))))"

subsection \<open>The formula of the specification\<close>

text \<open>
  The specification gives the conversion point by point:
  \<open>ecef = origin_ecef + R \<cdot> [east, north, up]\<^sup>T\<close>. These definitions follow its words, with
  the origin and the matrix of the source; the theorems compare the rows that the source
  computes for all points at once with this formula.
\<close>

definition mat_vec :: "vec3 \<times> vec3 \<times> vec3 \<Rightarrow> vec3 \<Rightarrow> vec3" where
  "mat_vec R v =
     (case R of ((a11, a12, a13), (a21, a22, a23), (a31, a32, a33)) \<Rightarrow>
      case v of (e, n, u) \<Rightarrow>
        (a11 * e + a12 * n + a13 * u, a21 * e + a22 * n + a23 * u, a31 * e + a32 * n + a33 * u))"

definition vec_add :: "vec3 \<Rightarrow> vec3 \<Rightarrow> vec3" where
  "vec_add p q = (case p of (p1, p2, p3) \<Rightarrow> case q of (q1, q2, q3) \<Rightarrow> (p1 + q1, p2 + q2, p3 + q3))"

definition spec_ecef_point :: "real \<Rightarrow> real \<Rightarrow> real \<Rightarrow> vec3 \<Rightarrow> vec3" where
  "spec_ecef_point origin_lon origin_lat origin_height enu =
     vec_add (origin_ecef origin_lon origin_lat origin_height)
       (mat_vec (rotation origin_lon origin_lat) enu)"

text \<open>The columns of a vertex element are the fields of one structured array of \<open>n\<close>
  records: every column has \<open>n\<close> entries.\<close>

definition structured_array :: "ply_element \<Rightarrow> nat \<Rightarrow> bool" where
  "structured_array vertex n = list_all (\<lambda>(name, col). len col = n) vertex"

section \<open>An example input\<close>

text \<open>A vertex element with two points, a colour channel and one more property; the
  coordinates are those of a scene far from the origin of its global frame.\<close>

definition scene :: ply_element where
  "scene = [(''x'', FloatArray F8 [1500, 2500]), (''y'', IntArray I4 [7, 8]),
            (''z'', FloatArray F4 [- 3, 1]), (''red'', IntArray U1 [0, 255]),
            (''intensity'', FloatArray F4 [1 / 2, 3 / 4])]"

text \<open>The end-to-end scenario of the specification: one point at the local origin, with
  a colour.\<close>

definition origin_point :: ply_element where
  "origin_point = [(''x'', FloatArray F4 [0]), (''y'', FloatArray F4 [0]),
                   (''z'', FloatArray F4 [0]), (''red'', FloatArray F4 [1 / 2])]"

section \<open>Properties of the shift selection\<close>

subsection \<open>Reading the coordinates\<close>

text \<open>The checks of lines 57 to 70 pass exactly on an element that has the three
  coordinate properties and at least one point.\<close>

lemma required_present_iff:
  "required \<subseteq> set (prop_names vertex) \<longleftrightarrow>
     (\<exists>vx vy vz. getitem vertex ''x'' = Some vx \<and> getitem vertex ''y'' = Some vy \<and>
        getitem vertex ''z'' = Some vz)"
proof -
  have "set (prop_names vertex) = dom (map_of vertex)"
    by (simp add: prop_names_def dom_map_of_conv_image_fst)
  then show ?thesis
    by (auto simp: required_def getitem_def)
qed


lemma read_coordinates_scene:
  "read_coordinates scene = Inr ([1500, 2500], [7, 8], [- 3, 1], [(1500, 7, - 3), (2500, 8, 1)])"
  by (simp add: scene_def read_coordinates_def required_def prop_names_def getitem_def
      vstack_T_def)

text \<open>What the whole function returns is the shift of the shift selection.\<close>

lemma convert_result:
  "fst (convert_ply_to_local vertex output_ply shift_mode manual_shift save_origin_json
          auto_base fs)
     = map_sum id snd (select_shift vertex shift_mode manual_shift auto_base)"
  by (simp add: convert_ply_to_local_def Let_def split: sum.splits prod.splits)

subsection \<open>The \<open>auto\<close> mode\<close>





subsection \<open>Rounding to 32-bit floats\<close>







subsection \<open>The files written\<close>

text \<open>The side-car record never has the path of the output table: its name ends in
  \<open>_origin.json\<close>, put where the extension of the output path began.\<close>

lemma rfind_hit:
  assumes "rfind c p = int i"
  shows "i < length p \<and> p ! i = c"
proof -
  from assms obtain rest where "filter (\<lambda>i. p ! i = c) (rev [0..<length p]) = i # rest"
    by (auto simp: rfind_def split: list.splits)
  then have "i \<in> set (filter (\<lambda>i. p ! i = c) (rev [0..<length p]))" by simp
  then show ?thesis by simp
qed

lemma rfind_ge: "- 1 \<le> rfind c p"
  by (simp add: rfind_def split: list.splits)

lemma json_path_differs: "splitext_root p @ ''_origin.json'' \<noteq> p"
proof (cases "splitext_root p = p")
  case True
  then show ?thesis by simp
next
  case False
  define d where "d = nat (rfind CHR ''.'' p)"
  from False have root: "splitext_root p = take d p" and lt: "rfind CHR ''/'' p < rfind CHR ''.'' p"
    by (auto simp: splitext_root_def Let_def d_def split: if_splits)
  from lt rfind_ge [of "CHR ''/''" p] have "rfind CHR ''.'' p = int d" by (simp add: d_def)
  from rfind_hit [OF this] have d: "d < length p" "p ! d = CHR ''.''" by simp_all
  show ?thesis
  proof
    assume "splitext_root p @ ''_origin.json'' = p"
    then have "drop d (take d p @ ''_origin.json'') = drop d p" by (simp add: root)
    then have "drop d p = ''_origin.json''" using d(1) by simp
    then have "hd (drop d p) = CHR ''_''" by simp
    with d show False by (simp add: hd_drop_conv_nth)
  qed
qed



lemma convert_error:
  assumes "select_shift vertex shift_mode manual_shift auto_base = Inl e"
  shows "convert_ply_to_local vertex output_ply shift_mode manual_shift save_origin_json auto_base fs
    = (Inl e, fs)"
  using assms by (simp add: convert_ply_to_local_def)



subsection \<open>The stored coordinates\<close>











lemma select_shift_scene_manual:
  "select_shift scene ''manual'' (Some [1000, 0, 0]) 1000
     = Inr ([(500, 7, - 3), (1500, 8, 1)], (1000, 0, 0))"
  by (simp add: select_shift_def read_coordinates_scene and_then_def compute_shift_def
      sub_shift_def)





subsection \<open>Failures\<close>

lemma select_shift_missing:
  assumes "\<not> required \<subseteq> set (prop_names vertex)"
  shows "select_shift vertex shift_mode manual_shift auto_base
    = Inl (MissingField (required - set (prop_names vertex)))"
  using assms by (simp add: select_shift_def read_coordinates_def and_then_def)

lemma select_shift_empty:
  assumes "getitem vertex ''x'' = Some vx" "getitem vertex ''y'' = Some vy"
    "getitem vertex ''z'' = Some vz"
    and "vstack_T (astype_float64 vx) (astype_float64 vy) (astype_float64 vz) = []"
  shows "select_shift vertex shift_mode manual_shift auto_base = Inl EmptyInput"
proof -
  from assms(1-3) have "required \<subseteq> set (prop_names vertex)"
    unfolding required_present_iff by blast
  with assms show ?thesis
    by (simp add: select_shift_def read_coordinates_def and_then_def)
qed

text \<open>
  Claim C6. An input that lacks one of the coordinate properties \<open>x\<close>, \<open>y\<close>, \<open>z\<close> fails
  with \<open>MissingField\<close>, which names exactly the lacking ones (a non-empty set). An input
  that has the three properties and whose point array has no row fails with
  \<open>EmptyInput\<close>. Either way the file system is left as it was: no output file is created.
  (The check of the properties comes first in the source, so an input that lacks a
  coordinate property has no point array to be empty.)
\<close>

theorem invalid_input_errors:
  "(\<not> required \<subseteq> set (prop_names vertex) \<longrightarrow>
      required - set (prop_names vertex) \<noteq> {} \<and>
      convert_ply_to_local vertex output_ply shift_mode manual_shift save_origin_json auto_base fs
        = (Inl (MissingField (required - set (prop_names vertex))), fs)) \<and>
   (getitem vertex ''x'' = Some vx \<and> getitem vertex ''y'' = Some vy \<and>
    getitem vertex ''z'' = Some vz \<and>
    vstack_T (astype_float64 vx) (astype_float64 vy) (astype_float64 vz) = [] \<longrightarrow>
      convert_ply_to_local vertex output_ply shift_mode manual_shift save_origin_json auto_base fs
        = (Inl EmptyInput, fs))"
  using select_shift_missing [of vertex shift_mode manual_shift auto_base]
    select_shift_empty [of vertex vx vy vz shift_mode manual_shift auto_base]
  by (auto simp: convert_error)

theorem invalid_input_errors_witness:
  "\<not> required \<subseteq> set (prop_names [(''x'', FloatArray F8 [1]), (''y'', FloatArray F8 [2])]) \<and>
   convert_ply_to_local [(''x'', FloatArray F8 [1]), (''y'', FloatArray F8 [2])]
       ''out.ply'' ''auto'' None True 1000 Map.empty
     = (Inl (MissingField {''z''}), Map.empty) \<and>
   vstack_T (astype_float64 (FloatArray F8 [])) (astype_float64 (FloatArray F8 []))
       (astype_float64 (FloatArray F8 [])) = [] \<and>
   convert_ply_to_local
       [(''x'', FloatArray F8 []), (''y'', FloatArray F8 []), (''z'', FloatArray F8 [])]
       ''out.ply'' ''auto'' None True 1000 Map.empty
     = (Inl EmptyInput, Map.empty)"
proof -
  have m: "\<not> required \<subseteq> set (prop_names [(''x'', FloatArray F8 [1]), (''y'', FloatArray F8 [2])])"
    "required - set (prop_names [(''x'', FloatArray F8 [1]), (''y'', FloatArray F8 [2])]) = {''z''}"
    by (auto simp: required_def prop_names_def)
  have e: "getitem [(''x'', FloatArray F8 []), (''y'', FloatArray F8 []), (''z'', FloatArray F8 [])] ''x''
       = Some (FloatArray F8 [])"
    "getitem [(''x'', FloatArray F8 []), (''y'', FloatArray F8 []), (''z'', FloatArray F8 [])] ''y''
       = Some (FloatArray F8 [])"
    "getitem [(''x'', FloatArray F8 []), (''y'', FloatArray F8 []), (''z'', FloatArray F8 [])] ''z''
       = Some (FloatArray F8 [])"
    "vstack_T (astype_float64 (FloatArray F8 [])) (astype_float64 (FloatArray F8 []))
       (astype_float64 (FloatArray F8 [])) = []"
    by (simp_all add: getitem_def vstack_T_def)
  show ?thesis
    using invalid_input_errors [of "[(''x'', FloatArray F8 [1]), (''y'', FloatArray F8 [2])]"
        "''out.ply''" "''auto''" None True 1000 Map.empty]
      invalid_input_errors [of
        "[(''x'', FloatArray F8 []), (''y'', FloatArray F8 []), (''z'', FloatArray F8 [])]"
        "''out.ply''" "''auto''" None True 1000 Map.empty
        "FloatArray F8 []" "FloatArray F8 []" "FloatArray F8 []"]
      m e
    by simp
qed

subsection \<open>Invalid parameters\<close>










subsection \<open>Parameters of the modes not selected\<close>

lemma compute_shift_ignores_manual_shift:
  assumes "shift_mode \<noteq> ''manual''"
  shows "compute_shift shift_mode manual_shift1 auto_base x y z points_global
       = compute_shift shift_mode manual_shift2 auto_base x y z points_global"
  using assms by (simp add: compute_shift_def)

lemma compute_shift_ignores_auto_base:
  assumes "shift_mode \<noteq> ''auto''"
  shows "compute_shift shift_mode manual_shift auto_base1 x y z points_global
       = compute_shift shift_mode manual_shift auto_base2 x y z points_global"
  using assms by (simp add: compute_shift_def)

lemma convert_ply_written:
  "snd (convert_ply_to_local vertex output_ply shift_mode manual_shift save_origin_json
          auto_base fs) output_ply
     = (case select_shift vertex shift_mode manual_shift auto_base of
          Inl e \<Rightarrow> fs output_ply
        | Inr (points_local, shift) \<Rightarrow> Some (PlyBinary (build_vertex_array vertex points_local)))"
  using json_path_differs [of output_ply]
  by (auto simp: convert_ply_to_local_def Let_def split: sum.splits)

text \<open>
  Claim C10. For every input, the result of the shift selection (the local points and the
  shift, or the error), the returned shift and the table written to \<open>output_ply\<close> do not
  depend on the manual shift when the mode is \<open>auto\<close> or \<open>first_point\<close>, and do not depend
  on the base when the mode is \<open>manual\<close> or \<open>first_point\<close>; in these two modes no base,
  positive or not, raises the error of the base.
\<close>

theorem unselected_parameters_ignored:
  "(shift_mode = ''auto'' \<or> shift_mode = ''first_point'' \<longrightarrow>
      select_shift vertex shift_mode manual_shift1 auto_base
        = select_shift vertex shift_mode manual_shift2 auto_base \<and>
      fst (convert_ply_to_local vertex output_ply shift_mode manual_shift1 save_origin_json
             auto_base fs)
        = fst (convert_ply_to_local vertex output_ply shift_mode manual_shift2 save_origin_json
             auto_base fs) \<and>
      snd (convert_ply_to_local vertex output_ply shift_mode manual_shift1 save_origin_json
             auto_base fs) output_ply
        = snd (convert_ply_to_local vertex output_ply shift_mode manual_shift2 save_origin_json
             auto_base fs) output_ply) \<and>
   (shift_mode = ''manual'' \<or> shift_mode = ''first_point'' \<longrightarrow>
      select_shift vertex shift_mode manual_shift auto_base1
        = select_shift vertex shift_mode manual_shift auto_base2 \<and>
      select_shift vertex shift_mode manual_shift auto_base1
        \<noteq> Inl (InvalidParameter AutoBaseNotPositive) \<and>
      fst (convert_ply_to_local vertex output_ply shift_mode manual_shift save_origin_json
             auto_base1 fs)
        = fst (convert_ply_to_local vertex output_ply shift_mode manual_shift save_origin_json
             auto_base2 fs) \<and>
      snd (convert_ply_to_local vertex output_ply shift_mode manual_shift save_origin_json
             auto_base1 fs) output_ply
        = snd (convert_ply_to_local vertex output_ply shift_mode manual_shift save_origin_json
             auto_base2 fs) output_ply)"
proof (intro conjI impI)
  assume m: "shift_mode = ''auto'' \<or> shift_mode = ''first_point''"
  then have ne: "shift_mode \<noteq> ''manual''" by auto
  show s: "select_shift vertex shift_mode manual_shift1 auto_base
        = select_shift vertex shift_mode manual_shift2 auto_base"
    unfolding select_shift_def
    using compute_shift_ignores_manual_shift [OF ne, of manual_shift1 auto_base _ _ _ _ manual_shift2]
    by simp
  show "fst (convert_ply_to_local vertex output_ply shift_mode manual_shift1 save_origin_json
             auto_base fs)
        = fst (convert_ply_to_local vertex output_ply shift_mode manual_shift2 save_origin_json
             auto_base fs)"
    by (simp add: convert_result s)
  show "snd (convert_ply_to_local vertex output_ply shift_mode manual_shift1 save_origin_json
             auto_base fs) output_ply
        = snd (convert_ply_to_local vertex output_ply shift_mode manual_shift2 save_origin_json
             auto_base fs) output_ply"
    by (simp add: convert_ply_written s)
next
  assume m: "shift_mode = ''manual'' \<or> shift_mode = ''first_point''"
  then have ne: "shift_mode \<noteq> ''auto''" by auto
  show s: "select_shift vertex shift_mode manual_shift auto_base1
        = select_shift vertex shift_mode manual_shift auto_base2"
    unfolding select_shift_def
    using compute_shift_ignores_auto_base [OF ne, of manual_shift auto_base1 _ _ _ _ auto_base2]
    by simp
  show "select_shift vertex shift_mode manual_shift auto_base1
        \<noteq> Inl (InvalidParameter AutoBaseNotPositive)"
    using ne
    by (auto simp: select_shift_def and_then_def compute_shift_def read_coordinates_def Let_def
        split: sum.splits option.splits list.splits if_splits prod.splits)
  show "fst (convert_ply_to_local vertex output_ply shift_mode manual_shift save_origin_json
             auto_base1 fs)
        = fst (convert_ply_to_local vertex output_ply shift_mode manual_shift save_origin_json
             auto_base2 fs)"
    by (simp add: convert_result s)
  show "snd (convert_ply_to_local vertex output_ply shift_mode manual_shift save_origin_json
             auto_base1 fs) output_ply
        = snd (convert_ply_to_local vertex output_ply shift_mode manual_shift save_origin_json
             auto_base2 fs) output_ply"
    by (simp add: convert_ply_written s)
qed


theorem unselected_parameters_ignored_witness:
  "(''first_point'' = ''auto'' \<or> ''first_point'' = ''first_point'') \<and>
   (''manual'' = ''manual'' \<or> ''manual'' = ''first_point'') \<and>
   select_shift scene ''first_point'' None 1000
     = select_shift scene ''first_point'' (Some [9, 9, 9]) 1000 \<and>
   select_shift scene ''manual'' (Some [1000, 0, 0]) (- 5)
     = Inr ([(500, 7, - 3), (1500, 8, 1)], (1000, 0, 0)) \<and>
   fst (convert_ply_to_local scene ''out.ply'' ''manual'' (Some [1000, 0, 0]) True (- 5) Map.empty)
     = Inr (1000, 0, 0)"
proof -
  have m1: "''first_point'' = ''auto'' \<or> ''first_point'' = ''first_point''" by simp
  have m2: "''manual'' = ''manual'' \<or> ''manual'' = ''first_point''" by simp
  note t1 = unselected_parameters_ignored [of "''first_point''" scene None 1000 "Some [9, 9, 9]"
      "''out.ply''" True Map.empty None 1000 1000]
  note t2 = unselected_parameters_ignored [of "''manual''" scene None "- 5" None
      "''out.ply''" True Map.empty "Some [1000, 0, 0]" "- 5" 1000]
  have a: "select_shift scene ''first_point'' None 1000
     = select_shift scene ''first_point'' (Some [9, 9, 9]) 1000"
    using t1 m1 by blast
  have b: "select_shift scene ''manual'' (Some [1000, 0, 0]) (- 5)
     = select_shift scene ''manual'' (Some [1000, 0, 0]) 1000"
    using t2 m2 by blast
  have c: "fst (convert_ply_to_local scene ''out.ply'' ''manual'' (Some [1000, 0, 0]) True (- 5)
                  Map.empty)
     = fst (convert_ply_to_local scene ''out.ply'' ''manual'' (Some [1000, 0, 0]) True 1000
                  Map.empty)"
    using t2 m2 by blast
  have d: "fst (convert_ply_to_local scene ''out.ply'' ''manual'' (Some [1000, 0, 0]) True 1000
                  Map.empty) = Inr (1000, 0, 0)"
    by (simp add: convert_result select_shift_scene_manual)
  from m1 m2 a b c d select_shift_scene_manual show ?thesis by simp
qed

end
